theory Spec2Isabelle
  imports Complex_Main
begin

section \<open>The payment service of cmd/api/main.go\<close>

text \<open>
  The program is two HTTP handlers, \<open>handleCreatePayment\<close> and \<open>handleGetPayment\<close>,
  over one struct, \<open>Payment\<close>. Both are written against Go's standard library
  (\<open>net/http\<close>, \<open>encoding/json\<close>, \<open>log\<close>, \<open>fmt\<close>); the part of the library that the
  handlers call is modelled first, then the handlers are transcribed call by call.
\<close>

subsection \<open>Data model\<close>

text \<open>
  \<open>Amount\<close> is a \<open>float64\<close>. The handlers only compare it with zero and copy it, and a
  value that comes out of the JSON decoder is always finite (the decoder rejects a
  literal outside the range of \<open>float64\<close>), so a finite \<open>float64\<close> is represented by the
  real number it denotes.
\<close>

type_synonym float64 = real

record Payment =
  ID :: string
  Amount :: float64
  Currency :: string
  Status :: string
  Description :: string

text \<open>The zero value that \<open>var payment Payment\<close> declares.\<close>

definition zero_Payment :: Payment where
  "zero_Payment = \<lparr>ID = [], Amount = 0, Currency = [], Status = [], Description = []\<rparr>"

subsection \<open>JSON documents\<close>

text \<open>
  A JSON value as \<open>encoding/json\<close> sees it after scanning. A number literal is
  represented by the \<open>float64\<close> that \<open>strconv.ParseFloat\<close> returns for it;
  \<open>JBigNumber\<close> is a literal (kept as text) that \<open>ParseFloat\<close> rejects as out of range.
  A string is its unquoted content; an object keeps its members in order, duplicates
  included.
\<close>

datatype json =
    JNull
  | JBool bool
  | JNumber float64
  | JBigNumber string
  | JString string
  | JArray "json list"
  | JObject "(string \<times> json) list"

text \<open>
  The errors \<open>Decoder.Decode\<close> returns: the scanner's or reader's error with its
  diagnostic text (a \<open>*json.SyntaxError\<close>, \<open>io.EOF\<close> for an empty body,
  \<open>io.ErrUnexpectedEOF\<close> for a truncated one), or an \<open>*json.UnmarshalTypeError\<close> with the
  description of the offending JSON value and the name of the struct field.
\<close>

datatype json_error =
    SyntaxError string
  | UnmarshalTypeError string string

text \<open>
  The request body is a byte stream; it is represented by what the decoder's scanner
  makes of it: either it fails there, or it delivers the first JSON value of the
  stream.
\<close>

datatype request_body =
    Malformed json_error
  | Document json

record Request =
  Method :: string
  Body :: request_body

subsection \<open>net/http: the response writer\<close>

text \<open>
  What is written to the response. \<open>fmt.Fprintln\<close> and \<open>Encoder.Encode\<close> each write one
  line, terminated by a newline character: \<open>Text s\<close> is the line with the text \<open>s\<close>,
  \<open>Json j\<close> is the line with the JSON encoding of \<open>j\<close>.
\<close>

datatype line =
    Text string
  | Json json

text \<open>
  \<open>Header\<close> is the header map of the response as it is sent: once the status line has
  gone out (\<open>Code\<close> is set) neither the code nor the header changes any more.
\<close>

record ResponseWriter =
  Header :: "string \<rightharpoonup> string"
  Code :: "nat option"
  Written :: "line list"

definition newResponseWriter :: ResponseWriter where
  "newResponseWriter = \<lparr>Header = Map.empty, Code = None, Written = []\<rparr>"

definition MethodGet :: string where "MethodGet = ''GET''"
definition MethodPost :: string where "MethodPost = ''POST''"

definition StatusOK :: nat where "StatusOK = 200"
definition StatusCreated :: nat where "StatusCreated = 201"
definition StatusBadRequest :: nat where "StatusBadRequest = 400"
definition StatusMethodNotAllowed :: nat where "StatusMethodNotAllowed = 405"

definition Header_Set :: "string \<Rightarrow> string \<Rightarrow> ResponseWriter \<Rightarrow> ResponseWriter" where
  "Header_Set k v w = (if Code w = None then w\<lparr>Header := (Header w)(k \<mapsto> v)\<rparr> else w)"

definition Header_Del :: "string \<Rightarrow> ResponseWriter \<Rightarrow> ResponseWriter" where
  "Header_Del k w = (if Code w = None then w\<lparr>Header := (Header w)(k := None)\<rparr> else w)"

definition WriteHeader :: "nat \<Rightarrow> ResponseWriter \<Rightarrow> ResponseWriter" where
  "WriteHeader c w = (if Code w = None then w\<lparr>Code := Some c\<rparr> else w)"

text \<open>A write before \<open>WriteHeader\<close> sends the status 200 first.\<close>

definition Write :: "line \<Rightarrow> ResponseWriter \<Rightarrow> ResponseWriter" where
  "Write l w = (let w' = WriteHeader StatusOK w in w'\<lparr>Written := Written w' @ [l]\<rparr>)"

text \<open>
  \<open>http.Error(w, error, code)\<close>: deletes Content-Length, sets the content type to plain
  text and X-Content-Type-Options to nosniff, writes the status code, then prints the
  message as a line with \<open>fmt.Fprintln\<close>.
\<close>

definition Error :: "ResponseWriter \<Rightarrow> string \<Rightarrow> nat \<Rightarrow> ResponseWriter" where
  "Error w error code =
     Write (Text error)
       (WriteHeader code
         (Header_Set ''X-Content-Type-Options'' ''nosniff''
           (Header_Set ''Content-Type'' ''text/plain; charset=utf-8''
             (Header_Del ''Content-Length'' w))))"

subsection \<open>log and fmt\<close>

text \<open>
  A call of \<open>log.Printf\<close> is recorded with its format string and its arguments; the
  operational log is the list of these calls.
\<close>

datatype arg =
    AString string
  | AFloat float64
  | AError json_error

datatype log_entry = Printf string "arg list"

text \<open>\<open>fmt.Sprintf\<close> with the format \<open>pay_%s\<close> and one string argument.\<close>

definition Sprintf_pay :: "string \<Rightarrow> string" where
  "Sprintf_pay s = ''pay_'' @ s"

subsection \<open>encoding/json: encoding a Payment\<close>

text \<open>
  The struct tags give the member names, in the order of the fields; \<open>omitempty\<close> on
  \<open>Description\<close> leaves the member out when the string is empty.
\<close>

definition Marshal :: "Payment \<Rightarrow> json" where
  "Marshal p = JObject
     ([(''id'', JString (ID p)),
       (''amount'', JNumber (Amount p)),
       (''currency'', JString (Currency p)),
       (''status'', JString (Status p))]
      @ (if Description p = [] then [] else [(''description'', JString (Description p))]))"

text \<open>\<open>json.NewEncoder(w).Encode(v)\<close> writes the encoding of \<open>v\<close>, followed by a newline.\<close>

definition Encode :: "Payment \<Rightarrow> ResponseWriter \<Rightarrow> ResponseWriter" where
  "Encode p w = Write (Json (Marshal p)) w"

subsection \<open>encoding/json: decoding into a Payment\<close>

datatype field = F_ID | F_Amount | F_Currency | F_Status | F_Description

definition fields :: "(string \<times> field) list" where
  "fields = [(''id'', F_ID), (''amount'', F_Amount), (''currency'', F_Currency),
             (''status'', F_Status), (''description'', F_Description)]"

text \<open>An ASCII lower-case letter becomes its upper-case letter; any other byte stays.\<close>

definition upper :: "char \<Rightarrow> char" where
  "upper c =
     (case map_of (zip ''abcdefghijklmnopqrstuvwxyz'' ''ABCDEFGHIJKLMNOPQRSTUVWXYZ'') c of
        Some u \<Rightarrow> u
      | None \<Rightarrow> c)"

text \<open>
  The decoder folds an object key before it looks the field up: ASCII letters to upper
  case, and a non-ASCII rune to the least rune of its Unicode fold class. Only two such
  runes fold to an ASCII letter: U+017F (long s, in UTF-8 the bytes C5 BF) to \<open>S\<close> and
  U+212A (Kelvin sign, the bytes E2 84 AA) to \<open>K\<close>.
\<close>

fun foldName :: "string \<Rightarrow> string" where
  "foldName [] = []"
| "foldName (c # cs) =
     (if c = CHR 0xC5 \<and> take 1 cs = [CHR 0xBF] then CHR ''S'' # foldName (drop 1 cs)
      else if c = CHR 0xE2 \<and> take 2 cs = [CHR 0x84, CHR 0xAA] then CHR ''K'' # foldName (drop 2 cs)
      else upper c # foldName cs)"

text \<open>A key names a field when it is the field's JSON name, or is equal to it after folding.\<close>

definition lookup_field :: "string \<Rightarrow> field option" where
  "lookup_field key =
     (case map_of fields key of
        Some f \<Rightarrow> Some f
      | None \<Rightarrow> map_of (map (\<lambda>(n, f). (foldName n, f)) fields) (foldName key))"

text \<open>How an \<open>UnmarshalTypeError\<close> describes the JSON value it met.\<close>

fun describe :: "json \<Rightarrow> string" where
  "describe JNull = ''null''"
| "describe (JBool b) = ''bool''"
| "describe (JNumber n) = ''number''"
| "describe (JBigNumber s) = ''number''"
| "describe (JString s) = ''string''"
| "describe (JArray xs) = ''array''"
| "describe (JObject kvs) = ''object''"

fun field_name :: "field \<Rightarrow> string" where
  "field_name F_ID = ''id''"
| "field_name F_Amount = ''amount''"
| "field_name F_Currency = ''currency''"
| "field_name F_Status = ''status''"
| "field_name F_Description = ''description''"

fun set_string :: "field \<Rightarrow> string \<Rightarrow> Payment \<Rightarrow> Payment" where
  "set_string F_ID s p = p\<lparr>ID := s\<rparr>"
| "set_string F_Currency s p = p\<lparr>Currency := s\<rparr>"
| "set_string F_Status s p = p\<lparr>Status := s\<rparr>"
| "set_string F_Description s p = p\<lparr>Description := s\<rparr>"
| "set_string F_Amount s p = p"

text \<open>
  Storing one member's value into its field. \<open>null\<close> leaves a string or a number
  untouched and is no error; a value of the wrong kind leaves the field untouched and
  gives an \<open>UnmarshalTypeError\<close>.
\<close>

fun store :: "field \<Rightarrow> json \<Rightarrow> Payment \<Rightarrow> Payment \<times> json_error option" where
  "store f JNull p = (p, None)"
| "store F_Amount (JNumber n) p = (p\<lparr>Amount := n\<rparr>, None)"
| "store F_Amount (JBigNumber s) p = (p, Some (UnmarshalTypeError (''number '' @ s) ''amount''))"
| "store F_Amount v p = (p, Some (UnmarshalTypeError (describe v) ''amount''))"
| "store f (JString s) p = (set_string f s p, None)"
| "store f v p = (p, Some (UnmarshalTypeError (describe v) (field_name f)))"

text \<open>
  The members of an object are stored in order; a key that names no field is skipped;
  after a type error the decoder goes on and keeps the first error.
\<close>

fun object :: "(string \<times> json) list \<Rightarrow> Payment \<times> json_error option \<Rightarrow> Payment \<times> json_error option" where
  "object [] s = s"
| "object ((k, v) # kvs) (p, e) =
     (case lookup_field k of
        None \<Rightarrow> object kvs (p, e)
      | Some f \<Rightarrow>
          (case store f v p of
             (p', e') \<Rightarrow> object kvs (p', case e of None \<Rightarrow> e' | Some x \<Rightarrow> Some x)))"

text \<open>
  \<open>json.NewDecoder(r.Body).Decode(&payment)\<close>: the updated struct and the error
  (\<open>None\<close> is Go's \<open>nil\<close>). A scanner error leaves the struct untouched; \<open>null\<close> is
  accepted and changes nothing; any value other than an object or \<open>null\<close> is a type error.
\<close>

fun Decode :: "request_body \<Rightarrow> Payment \<Rightarrow> Payment \<times> json_error option" where
  "Decode (Malformed err) p = (p, Some err)"
| "Decode (Document (JObject kvs)) p = object kvs (p, None)"
| "Decode (Document JNull) p = (p, None)"
| "Decode (Document v) p = (p, Some (UnmarshalTypeError (describe v) []))"

subsection \<open>The handlers\<close>

text \<open>
  A handler takes the request, the response writer and the operational log, and returns
  the writer and the log as it leaves them.
\<close>

definition handleCreatePayment ::
  "Request \<Rightarrow> ResponseWriter \<times> log_entry list \<Rightarrow> ResponseWriter \<times> log_entry list" where
  "handleCreatePayment r s =
     (case s of (w, lg) \<Rightarrow>
        if Method r \<noteq> MethodPost then
          (Error w ''Invalid method'' StatusMethodNotAllowed, lg)
        else
          (case Decode (Body r) zero_Payment of
             (payment, Some err) \<Rightarrow>
               (Error w ''Invalid JSON'' StatusBadRequest,
                lg @ [Printf ''Error decoding JSON: %v'' [AError err]])
           | (payment, None) \<Rightarrow>
               if Amount payment \<le> 0 then
                 (Error w ''Amount must be positive'' StatusBadRequest, lg)
               else if Currency payment = [] then
                 (Error w ''Currency is required'' StatusBadRequest, lg)
               else
                 (let payment = payment\<lparr>ID := Sprintf_pay ''12345''\<rparr>;
                      payment = payment\<lparr>Status := ''pending''\<rparr>;
                      lg = lg @ [Printf ''Payment created: ID=%s, Amount=%.2f %s, Status=%s, Description=%q''
                                   [AString (ID payment), AFloat (Amount payment),
                                    AString (Currency payment), AString (Status payment),
                                    AString (Description payment)]];
                      w = Header_Set ''Content-Type'' ''application/json'' w;
                      w = WriteHeader StatusCreated w;
                      w = Encode payment w
                  in (w, lg))))"

definition handleGetPayment ::
  "Request \<Rightarrow> ResponseWriter \<times> log_entry list \<Rightarrow> ResponseWriter \<times> log_entry list" where
  "handleGetPayment r s =
     (case s of (w, lg) \<Rightarrow>
        if Method r \<noteq> MethodGet then
          (Error w ''Invalid method'' StatusMethodNotAllowed, lg)
        else
          (let payment = \<lparr>ID = ''pay_12345'', Amount = 1000.50, Currency = ''RUB'',
                          Status = ''succeeded'', Description = []\<rparr>;
               w = Header_Set ''Content-Type'' ''application/json'' w;
               w = WriteHeader StatusOK w;
               w = Encode payment w
           in (w, lg)))"

subsection \<open>Reading a response\<close>

text \<open>
  The member \<open>k\<close> of the JSON object in the response body, when the body is exactly one
  encoded object.
\<close>

definition response_member :: "ResponseWriter \<Rightarrow> string \<Rightarrow> json option" where
  "response_member w k = (case Written w of [Json (JObject kvs)] \<Rightarrow> map_of kvs k | _ \<Rightarrow> None)"

subsection \<open>Reading the decoder\<close>

text \<open>The value a field holds, as the JSON value that stores it.\<close>

fun field_value :: "field \<Rightarrow> Payment \<Rightarrow> json" where
  "field_value F_ID p = JString (ID p)"
| "field_value F_Amount p = JNumber (Amount p)"
| "field_value F_Currency p = JString (Currency p)"
| "field_value F_Status p = JString (Status p)"
| "field_value F_Description p = JString (Description p)"

text \<open>The fields that the keys of an object name.\<close>

definition named :: "(string \<times> json) list \<Rightarrow> field set" where
  "named kvs = set (List.map_filter lookup_field (map fst kvs))"

text \<open>
  A value fits a field: \<open>null\<close> fits every field, a number (within range) the amount,
  a string the other fields.
\<close>

fun fits :: "field \<Rightarrow> json \<Rightarrow> bool" where
  "fits f JNull = True"
| "fits F_Amount (JNumber n) = True"
| "fits F_Amount v = False"
| "fits f (JString s) = True"
| "fits f v = False"

section \<open>Properties\<close>

subsection \<open>The responses on a new writer\<close>

lemma Error_new:
  "Code (Error newResponseWriter msg c) = Some c"
  "Written (Error newResponseWriter msg c) = [Text msg]"
  "Header (Error newResponseWriter msg c) ''Content-Type'' = Some ''text/plain; charset=utf-8''"
  by (simp_all add: Error_def Write_def WriteHeader_def Header_Set_def Header_Del_def
        newResponseWriter_def Let_def)

lemma Encode_new:
  fixes c :: nat and p :: Payment
  defines "w \<equiv> Encode p (WriteHeader c (Header_Set ''Content-Type'' ''application/json'' newResponseWriter))"
  shows "Code w = Some c"
    and "Written w = [Json (Marshal p)]"
    and "Header w ''Content-Type'' = Some ''application/json''"
  by (simp_all add: w_def Encode_def Write_def WriteHeader_def Header_Set_def
        newResponseWriter_def Let_def)

subsection \<open>The branches of handleCreatePayment\<close>

lemma create_not_post:
  "Method r \<noteq> MethodPost \<Longrightarrow>
   handleCreatePayment r (w, lg) = (Error w ''Invalid method'' StatusMethodNotAllowed, lg)"
  by (simp add: handleCreatePayment_def)

lemma create_decode_error:
  "Method r = MethodPost \<Longrightarrow> Decode (Body r) zero_Payment = (p, Some err) \<Longrightarrow>
   handleCreatePayment r (w, lg) =
     (Error w ''Invalid JSON'' StatusBadRequest,
      lg @ [Printf ''Error decoding JSON: %v'' [AError err]])"
  by (simp add: handleCreatePayment_def)

lemma create_bad_amount:
  "Method r = MethodPost \<Longrightarrow> Decode (Body r) zero_Payment = (p, None) \<Longrightarrow> Amount p \<le> 0 \<Longrightarrow>
   handleCreatePayment r (w, lg) = (Error w ''Amount must be positive'' StatusBadRequest, lg)"
  by (simp add: handleCreatePayment_def)

lemma create_no_currency:
  "Method r = MethodPost \<Longrightarrow> Decode (Body r) zero_Payment = (p, None) \<Longrightarrow> 0 < Amount p \<Longrightarrow>
   Currency p = [] \<Longrightarrow>
   handleCreatePayment r (w, lg) = (Error w ''Currency is required'' StatusBadRequest, lg)"
  by (simp add: handleCreatePayment_def)

lemma create_accepted:
  "Method r = MethodPost \<Longrightarrow> Decode (Body r) zero_Payment = (p, None) \<Longrightarrow> 0 < Amount p \<Longrightarrow>
   Currency p \<noteq> [] \<Longrightarrow>
   handleCreatePayment r (w, lg) =
     (Encode (p\<lparr>ID := ''pay_12345'', Status := ''pending''\<rparr>)
        (WriteHeader StatusCreated (Header_Set ''Content-Type'' ''application/json'' w)),
      lg @ [Printf ''Payment created: ID=%s, Amount=%.2f %s, Status=%s, Description=%q''
              [AString ''pay_12345'', AFloat (Amount p), AString (Currency p),
               AString ''pending'', AString (Description p)]])"
  by (simp add: handleCreatePayment_def Sprintf_pay_def Let_def)

text \<open>The status 201 leaves the handler on the last branch only.\<close>

lemma create_201_cases:
  assumes "Code (fst (handleCreatePayment r (newResponseWriter, lg))) = Some StatusCreated"
  shows "\<exists>p. Method r = MethodPost \<and> Decode (Body r) zero_Payment = (p, None)
           \<and> 0 < Amount p \<and> Currency p \<noteq> []"
proof -
  obtain p e where d: "Decode (Body r) zero_Payment = (p, e)"
    by (cases "Decode (Body r) zero_Payment")
  have post: "Method r = MethodPost"
  proof (rule ccontr)
    assume "Method r \<noteq> MethodPost"
    with assms show False
      by (simp add: create_not_post Error_new StatusCreated_def StatusMethodNotAllowed_def)
  qed
  have decoded: "e = None"
  proof (cases e)
    case (Some err)
    with assms post d show ?thesis
      by (simp add: create_decode_error Error_new StatusCreated_def StatusBadRequest_def)
  qed simp
  have positive: "0 < Amount p"
  proof (rule ccontr)
    assume "\<not> 0 < Amount p"
    with assms post d decoded show False
      by (simp add: create_bad_amount Error_new StatusCreated_def StatusBadRequest_def)
  qed
  have "Currency p \<noteq> []"
  proof
    assume "Currency p = []"
    with assms post d decoded positive show False
      by (simp add: create_no_currency Error_new StatusCreated_def StatusBadRequest_def)
  qed
  with post d decoded positive show ?thesis by simp
qed

lemma Marshal_members:
  "map_of (case Marshal p of JObject kvs \<Rightarrow> kvs | _ \<Rightarrow> []) ''id'' = Some (JString (ID p))"
  "map_of (case Marshal p of JObject kvs \<Rightarrow> kvs | _ \<Rightarrow> []) ''amount'' = Some (JNumber (Amount p))"
  "map_of (case Marshal p of JObject kvs \<Rightarrow> kvs | _ \<Rightarrow> []) ''currency'' = Some (JString (Currency p))"
  "map_of (case Marshal p of JObject kvs \<Rightarrow> kvs | _ \<Rightarrow> []) ''status'' = Some (JString (Status p))"
  "map_of (case Marshal p of JObject kvs \<Rightarrow> kvs | _ \<Rightarrow> []) ''description'' =
     (if Description p = [] then None else Some (JString (Description p)))"
  by (simp_all add: Marshal_def)

lemma response_member_Marshal:
  "Written w = [Json (Marshal p)] \<Longrightarrow>
   response_member w k = map_of (case Marshal p of JObject kvs \<Rightarrow> kvs | _ \<Rightarrow> []) k"
  by (simp add: response_member_def Marshal_def)

text \<open>What a response with the status 201 holds.\<close>

lemma create_201_body:
  assumes "Code (fst (handleCreatePayment r (newResponseWriter, lg))) = Some StatusCreated"
  shows "\<exists>p. Decode (Body r) zero_Payment = (p, None) \<and>
             Written (fst (handleCreatePayment r (newResponseWriter, lg))) =
               [Json (Marshal (p\<lparr>ID := ''pay_12345'', Status := ''pending''\<rparr>))]"
proof -
  from create_201_cases [OF assms] obtain p where
    p: "Method r = MethodPost" "Decode (Body r) zero_Payment = (p, None)" "0 < Amount p" "Currency p \<noteq> []"
    by blast
  then have "Written (fst (handleCreatePayment r (newResponseWriter, lg))) =
      [Json (Marshal (p\<lparr>ID := ''pay_12345'', Status := ''pending''\<rparr>))]"
    by (simp add: create_accepted Encode_new)
  with p show ?thesis by blast
qed

lemma create_201_id:
  assumes "Code (fst (handleCreatePayment r (newResponseWriter, lg))) = Some StatusCreated"
  shows "response_member (fst (handleCreatePayment r (newResponseWriter, lg))) ''id'' =
           Some (JString ''pay_12345'')"
    and "response_member (fst (handleCreatePayment r (newResponseWriter, lg))) ''status'' =
           Some (JString ''pending'')"
proof -
  from create_201_body [OF assms] obtain p where
    "Written (fst (handleCreatePayment r (newResponseWriter, lg))) =
       [Json (Marshal (p\<lparr>ID := ''pay_12345'', Status := ''pending''\<rparr>))]"
    by blast
  from response_member_Marshal [OF this]
  show "response_member (fst (handleCreatePayment r (newResponseWriter, lg))) ''id'' =
           Some (JString ''pay_12345'')"
    and "response_member (fst (handleCreatePayment r (newResponseWriter, lg))) ''status'' =
           Some (JString ''pending'')"
    by (simp_all add: Marshal_members)
qed

lemma create_201_eval:
  "Method r = MethodPost \<Longrightarrow> Decode (Body r) zero_Payment = (p, None) \<Longrightarrow> 0 < Amount p \<Longrightarrow>
   Currency p \<noteq> [] \<Longrightarrow>
   Code (fst (handleCreatePayment r (newResponseWriter, lg))) = Some StatusCreated"
  by (simp add: create_accepted Encode_new)

subsection \<open>The decoder on an object\<close>

lemma store_fits: "fits f v \<Longrightarrow> snd (store f v p) = None"
  by (cases f; cases v) simp_all

lemma store_frame: "g \<noteq> f \<Longrightarrow> field_value g (fst (store f v p)) = field_value g p"
  by (cases f; cases v; cases g) simp_all

lemma named_Cons:
  "named ((k, v) # kvs) = (case lookup_field k of None \<Rightarrow> named kvs | Some f \<Rightarrow> insert f (named kvs))"
  by (simp add: named_def map_filter_simps split: option.splits)

lemma named_Nil: "named [] = {}"
  by (simp add: named_def map_filter_simps)

lemma object_no_error:
  assumes "\<forall>(k, v) \<in> set kvs. \<forall>f. lookup_field k = Some f \<longrightarrow> fits f v"
  shows "snd (object kvs (p, e)) = e"
  using assms
proof (induction kvs arbitrary: p)
  case Nil
  show ?case by simp
next
  case (Cons kv kvs)
  obtain k v where kv: "kv = (k, v)" by (cases kv)
  from Cons.prems have rest: "\<forall>(k, v) \<in> set kvs. \<forall>f. lookup_field k = Some f \<longrightarrow> fits f v"
    by simp
  show ?case
  proof (cases "lookup_field k")
    case None
    with kv Cons.IH [OF rest] show ?thesis by simp
  next
    case (Some f)
    with Cons.prems kv have "fits f v" by simp
    then have ok: "snd (store f v p) = None" by (rule store_fits)
    obtain p' where p': "store f v p = (p', None)" using ok by (cases "store f v p") simp
    have "(case e of None \<Rightarrow> None | Some x \<Rightarrow> Some x) = e" by (cases e) simp_all
    with kv Some p' Cons.IH [OF rest, of p'] show ?thesis by simp
  qed
qed

lemma object_frame:
  assumes "f \<notin> named kvs"
  shows "field_value f (fst (object kvs (p, e))) = field_value f p"
  using assms
proof (induction kvs arbitrary: p e)
  case Nil
  show ?case by simp
next
  case (Cons kv kvs)
  obtain k v where kv: "kv = (k, v)" by (cases kv)
  show ?case
  proof (cases "lookup_field k")
    case None
    with Cons kv show ?thesis by (simp add: named_Cons)
  next
    case (Some g)
    with Cons.prems kv have ne: "f \<noteq> g" and rest: "f \<notin> named kvs"
      by (auto simp: named_Cons)
    obtain p' e' where st: "store g v p = (p', e')" by (cases "store g v p")
    from store_frame [OF ne, of v p] st have "field_value f p' = field_value f p" by simp
    with kv Some st Cons.IH [OF rest] show ?thesis by simp
  qed
qed

text \<open>The definitions that a concrete request is evaluated with.\<close>

lemmas eval_defs =
  lookup_field_def fields_def upper_def zero_Payment_def MethodPost_def MethodGet_def

subsection \<open>Creating a payment\<close>

text \<open>
  C1. A POST request whose body decodes without error into a Payment with an amount
  greater than zero and a non-empty currency is answered with the status 201, the
  content type application/json, and the encoding of the decoded Payment with the id
  \<open>pay_12345\<close> and the status \<open>pending\<close> as the body; one line goes to the log.
\<close>

theorem create_valid_201:
  assumes "Method r = MethodPost"
    and "Decode (Body r) zero_Payment = (p, None)"
    and "0 < Amount p"
    and "Currency p \<noteq> []"
  shows "case handleCreatePayment r (newResponseWriter, lg) of (w, lg') \<Rightarrow>
           Code w = Some 201
         \<and> Header w ''Content-Type'' = Some ''application/json''
         \<and> Written w = [Json (Marshal (p\<lparr>ID := ''pay_12345'', Status := ''pending''\<rparr>))]
         \<and> lg' = lg @ [Printf ''Payment created: ID=%s, Amount=%.2f %s, Status=%s, Description=%q''
                          [AString ''pay_12345'', AFloat (Amount p), AString (Currency p),
                           AString ''pending'', AString (Description p)]]"
  using assms by (simp add: create_accepted Encode_new StatusCreated_def)

text \<open>The first end-to-end scenario: amount 100.5, currency RUB.\<close>

theorem create_valid_201_witness:
  "case handleCreatePayment
          \<lparr>Method = ''POST'',
           Body = Document (JObject [(''amount'', JNumber 100.5), (''currency'', JString ''RUB'')])\<rparr>
          (newResponseWriter, []) of (w, lg') \<Rightarrow>
     Code w = Some 201
   \<and> Header w ''Content-Type'' = Some ''application/json''
   \<and> Written w = [Json (JObject [(''id'', JString ''pay_12345''), (''amount'', JNumber 100.5),
                                 (''currency'', JString ''RUB''), (''status'', JString ''pending'')])]
   \<and> lg' = [Printf ''Payment created: ID=%s, Amount=%.2f %s, Status=%s, Description=%q''
              [AString ''pay_12345'', AFloat 100.5, AString ''RUB'', AString ''pending'', AString []]]"
  using create_valid_201 [of "\<lparr>Method = ''POST'',
           Body = Document (JObject [(''amount'', JNumber 100.5), (''currency'', JString ''RUB'')])\<rparr>"
      "\<lparr>ID = [], Amount = 100.5, Currency = ''RUB'', Status = [], Description = []\<rparr>" "[]"]
  by (simp add: eval_defs Marshal_def)

text \<open>
  C2. Once the body has decoded without error, the amount is checked first: an amount
  that is zero or negative is answered with the status 400 and the message
  \<open>Amount must be positive\<close>, whatever the other fields hold (the currency is not
  looked at), and nothing is logged.
\<close>

theorem amount_checked_first:
  assumes "Method r = MethodPost"
    and "Decode (Body r) zero_Payment = (p, None)"
    and "Amount p \<le> 0"
  shows "case handleCreatePayment r (newResponseWriter, lg) of (w, lg') \<Rightarrow>
           Code w = Some 400 \<and> Written w = [Text ''Amount must be positive''] \<and> lg' = lg"
  using assms by (simp add: create_bad_amount Error_new StatusBadRequest_def)

text \<open>A negative amount together with a missing currency.\<close>

theorem amount_checked_first_witness:
  "case handleCreatePayment
          \<lparr>Method = ''POST'',
           Body = Document (JObject [(''amount'', JNumber (- 5)), (''description'', JString ''gift'')])\<rparr>
          (newResponseWriter, []) of (w, lg') \<Rightarrow>
     Code w = Some 400 \<and> Written w = [Text ''Amount must be positive''] \<and> lg' = []"
  using amount_checked_first [of "\<lparr>Method = ''POST'',
           Body = Document (JObject [(''amount'', JNumber (- 5)), (''description'', JString ''gift'')])\<rparr>"
      "\<lparr>ID = [], Amount = - 5, Currency = [], Status = [], Description = ''gift''\<rparr>" "[]"]
  by (simp add: eval_defs)

text \<open>
  C3. When a POST body does not decode (the decoder returns an error, be it a syntax
  error or a value of the wrong type), the response is the status 400 with the one
  line \<open>Invalid JSON\<close>: it is the same response for every error, it holds no encoded
  Payment, and the error itself goes to the log only.
\<close>

theorem decode_failure_generic:
  assumes "Method r = MethodPost"
    and "Decode (Body r) zero_Payment = (p, Some err)"
  shows "handleCreatePayment r (newResponseWriter, lg) =
           (Error newResponseWriter ''Invalid JSON'' StatusBadRequest,
            lg @ [Printf ''Error decoding JSON: %v'' [AError err]])
       \<and> Code (Error newResponseWriter ''Invalid JSON'' StatusBadRequest) = Some 400
       \<and> Written (Error newResponseWriter ''Invalid JSON'' StatusBadRequest) = [Text ''Invalid JSON'']
       \<and> (\<forall>j. Json j \<notin> set (Written (Error newResponseWriter ''Invalid JSON'' StatusBadRequest)))"
  using assms by (simp add: create_decode_error Error_new StatusBadRequest_def)

text \<open>An amount sent as a string is a value of the wrong type.\<close>

theorem decode_failure_generic_witness:
  "handleCreatePayment
      \<lparr>Method = ''POST'',
       Body = Document (JObject [(''amount'', JString ''100''), (''currency'', JString ''RUB'')])\<rparr>
      (newResponseWriter, []) =
     (Error newResponseWriter ''Invalid JSON'' StatusBadRequest,
      [Printf ''Error decoding JSON: %v'' [AError (UnmarshalTypeError ''string'' ''amount'')]])
   \<and> Code (Error newResponseWriter ''Invalid JSON'' StatusBadRequest) = Some 400
   \<and> Written (Error newResponseWriter ''Invalid JSON'' StatusBadRequest) = [Text ''Invalid JSON'']"
  using decode_failure_generic [of "\<lparr>Method = ''POST'',
      Body = Document (JObject [(''amount'', JString ''100''), (''currency'', JString ''RUB'')])\<rparr>"
      "\<lparr>ID = [], Amount = 0, Currency = ''RUB'', Status = [], Description = []\<rparr>"
      "UnmarshalTypeError ''string'' ''amount''" "[]"]
  by (simp add: eval_defs)

text \<open>
  C4. A body that decodes without error, with an amount greater than zero and an empty
  currency, is answered with the status 400 and the message \<open>Currency is required\<close>.
\<close>

theorem currency_required:
  assumes "Method r = MethodPost"
    and "Decode (Body r) zero_Payment = (p, None)"
    and "0 < Amount p"
    and "Currency p = []"
  shows "case handleCreatePayment r (newResponseWriter, lg) of (w, lg') \<Rightarrow>
           Code w = Some 400 \<and> Written w = [Text ''Currency is required''] \<and> lg' = lg"
  using assms by (simp add: create_no_currency Error_new StatusBadRequest_def)

theorem currency_required_witness:
  "case handleCreatePayment
          \<lparr>Method = ''POST'', Body = Document (JObject [(''amount'', JNumber 10)])\<rparr>
          (newResponseWriter, []) of (w, lg') \<Rightarrow>
     Code w = Some 400 \<and> Written w = [Text ''Currency is required''] \<and> lg' = []"
  using currency_required [of
      "\<lparr>Method = ''POST'', Body = Document (JObject [(''amount'', JNumber 10)])\<rparr>"
      "\<lparr>ID = [], Amount = 10, Currency = [], Status = [], Description = []\<rparr>" "[]"]
  by (simp add: eval_defs)

text \<open>
  C7. Whenever the create handler answers 201, the \<open>id\<close> member of the response is
  \<open>pay_12345\<close> and the \<open>status\<close> member is \<open>pending\<close>, whatever the request
  body holds under these keys.
\<close>

theorem id_status_server_assigned:
  assumes "Code (fst (handleCreatePayment r (newResponseWriter, lg))) = Some StatusCreated"
  shows "response_member (fst (handleCreatePayment r (newResponseWriter, lg))) ''id'' =
           Some (JString ''pay_12345'')
       \<and> response_member (fst (handleCreatePayment r (newResponseWriter, lg))) ''status'' =
           Some (JString ''pending'')"
  using create_201_id [OF assms] by simp

text \<open>A client that sends its own id and the status succeeded.\<close>

theorem id_status_server_assigned_witness:
  "response_member (fst (handleCreatePayment
      \<lparr>Method = ''POST'',
       Body = Document (JObject [(''id'', JString ''pay_mine''), (''status'', JString ''succeeded''),
                                 (''amount'', JNumber 7), (''currency'', JString ''EUR'')])\<rparr>
      (newResponseWriter, []))) ''id'' = Some (JString ''pay_12345'')
   \<and> response_member (fst (handleCreatePayment
      \<lparr>Method = ''POST'',
       Body = Document (JObject [(''id'', JString ''pay_mine''), (''status'', JString ''succeeded''),
                                 (''amount'', JNumber 7), (''currency'', JString ''EUR'')])\<rparr>
      (newResponseWriter, []))) ''status'' = Some (JString ''pending'')"
proof -
  let ?r = "\<lparr>Method = ''POST'',
       Body = Document (JObject [(''id'', JString ''pay_mine''), (''status'', JString ''succeeded''),
                                 (''amount'', JNumber 7), (''currency'', JString ''EUR'')])\<rparr>"
  have d: "Decode (Body ?r) zero_Payment =
      (\<lparr>ID = ''pay_mine'', Amount = 7, Currency = ''EUR'', Status = ''succeeded'', Description = []\<rparr>, None)"
    by (simp add: eval_defs)
  have "Code (fst (handleCreatePayment ?r (newResponseWriter, []))) = Some StatusCreated"
    using create_accepted [OF _ d, of newResponseWriter "[]"]
    by (simp add: MethodPost_def Encode_new)
  from id_status_server_assigned [OF this] show ?thesis .
qed

text \<open>
  C8. On a successful creation the response body is the encoding of the decoded Payment
  with only \<open>ID\<close> and \<open>Status\<close> replaced: its \<open>amount\<close> and \<open>currency\<close> members are the
  decoded ones, and the \<open>description\<close> member is the decoded one when it is not empty
  and is absent when it is empty.
\<close>

theorem created_frame:
  assumes "Method r = MethodPost"
    and "Decode (Body r) zero_Payment = (p, None)"
    and "0 < Amount p"
    and "Currency p \<noteq> []"
  shows "Written (fst (handleCreatePayment r (newResponseWriter, lg))) =
           [Json (Marshal (p\<lparr>ID := ''pay_12345'', Status := ''pending''\<rparr>))]
       \<and> response_member (fst (handleCreatePayment r (newResponseWriter, lg))) ''amount'' =
           Some (JNumber (Amount p))
       \<and> response_member (fst (handleCreatePayment r (newResponseWriter, lg))) ''currency'' =
           Some (JString (Currency p))
       \<and> response_member (fst (handleCreatePayment r (newResponseWriter, lg))) ''description'' =
           (if Description p = [] then None else Some (JString (Description p)))"
proof -
  have w: "Written (fst (handleCreatePayment r (newResponseWriter, lg))) =
      [Json (Marshal (p\<lparr>ID := ''pay_12345'', Status := ''pending''\<rparr>))]"
    using assms by (simp add: create_accepted Encode_new)
  from response_member_Marshal [OF w] w show ?thesis
    by (simp add: Marshal_members)
qed

theorem created_frame_witness:
  "response_member (fst (handleCreatePayment
      \<lparr>Method = ''POST'',
       Body = Document (JObject [(''amount'', JNumber 250.75), (''currency'', JString ''USD''),
                                 (''description'', JString ''order 42'')])\<rparr>
      (newResponseWriter, []))) ''description'' = Some (JString ''order 42'')
   \<and> response_member (fst (handleCreatePayment
      \<lparr>Method = ''POST'',
       Body = Document (JObject [(''amount'', JNumber 250.75), (''currency'', JString ''USD''),
                                 (''description'', JString ''order 42'')])\<rparr>
      (newResponseWriter, []))) ''amount'' = Some (JNumber 250.75)
   \<and> response_member (fst (handleCreatePayment
      \<lparr>Method = ''POST'',
       Body = Document (JObject [(''amount'', JNumber 250.75), (''currency'', JString ''USD''),
                                 (''description'', JString [])])\<rparr>
      (newResponseWriter, []))) ''description'' = None
   \<and> Written (fst (handleCreatePayment
      \<lparr>Method = ''POST'',
       Body = Document (JObject [(''amount'', JNumber 250.75), (''currency'', JString ''USD''),
                                 (''description'', JString [])])\<rparr>
      (newResponseWriter, []))) =
        [Json (JObject [(''id'', JString ''pay_12345''), (''amount'', JNumber 250.75),
                        (''currency'', JString ''USD''), (''status'', JString ''pending'')])]"
  using created_frame [of "\<lparr>Method = ''POST'',
       Body = Document (JObject [(''amount'', JNumber 250.75), (''currency'', JString ''USD''),
                                 (''description'', JString ''order 42'')])\<rparr>"
       "\<lparr>ID = [], Amount = 250.75, Currency = ''USD'', Status = [], Description = ''order 42''\<rparr>" "[]"]
    created_frame [of "\<lparr>Method = ''POST'',
       Body = Document (JObject [(''amount'', JNumber 250.75), (''currency'', JString ''USD''),
                                 (''description'', JString [])])\<rparr>"
       "\<lparr>ID = [], Amount = 250.75, Currency = ''USD'', Status = [], Description = []\<rparr>" "[]"]
  by (simp add: eval_defs Marshal_def)

text \<open>
  C9. Any two requests that are answered with 201 carry the same \<open>id\<close> member,
  \<open>pay_12345\<close>, whatever their amounts, currencies and descriptions.
\<close>

theorem same_id_every_time:
  assumes "Code (fst (handleCreatePayment r1 (newResponseWriter, lg1))) = Some StatusCreated"
    and "Code (fst (handleCreatePayment r2 (newResponseWriter, lg2))) = Some StatusCreated"
  shows "response_member (fst (handleCreatePayment r1 (newResponseWriter, lg1))) ''id'' =
         response_member (fst (handleCreatePayment r2 (newResponseWriter, lg2))) ''id''
       \<and> response_member (fst (handleCreatePayment r1 (newResponseWriter, lg1))) ''id'' =
           Some (JString ''pay_12345'')"
  using create_201_id(1) [OF assms(1)] create_201_id(1) [OF assms(2)] by simp

theorem same_id_every_time_witness:
  "response_member (fst (handleCreatePayment
      \<lparr>Method = ''POST'',
       Body = Document (JObject [(''amount'', JNumber 100.5), (''currency'', JString ''RUB'')])\<rparr>
      (newResponseWriter, []))) ''id'' =
   response_member (fst (handleCreatePayment
      \<lparr>Method = ''POST'',
       Body = Document (JObject [(''amount'', JNumber 3), (''currency'', JString ''EUR''),
                                 (''description'', JString ''second'')])\<rparr>
      (newResponseWriter, []))) ''id''"
proof -
  let ?r1 = "\<lparr>Method = ''POST'',
       Body = Document (JObject [(''amount'', JNumber 100.5), (''currency'', JString ''RUB'')])\<rparr>"
  let ?r2 = "\<lparr>Method = ''POST'',
       Body = Document (JObject [(''amount'', JNumber 3), (''currency'', JString ''EUR''),
                                 (''description'', JString ''second'')])\<rparr>"
  have c1: "Code (fst (handleCreatePayment ?r1 (newResponseWriter, []))) = Some StatusCreated"
    by (rule create_201_eval [where p = "\<lparr>ID = [], Amount = 100.5, Currency = ''RUB'', Status = [], Description = []\<rparr>"])
       (simp_all add: eval_defs)
  have c2: "Code (fst (handleCreatePayment ?r2 (newResponseWriter, []))) = Some StatusCreated"
    by (rule create_201_eval [where p = "\<lparr>ID = [], Amount = 3, Currency = ''EUR'', Status = [], Description = ''second''\<rparr>"])
       (simp_all add: eval_defs)
  from same_id_every_time [OF c1 c2] show ?thesis by simp
qed

subsection \<open>The method checks and the status handler\<close>

text \<open>
  C5. A request to the create handler with a method other than POST is answered with
  the status 405 and the line \<open>Invalid method\<close>; the body is not decoded (the result
  is the same for every body, and nothing is logged). A request to the status handler
  with a method other than GET is answered in the same way.
\<close>

theorem wrong_method_405:
  assumes "Method r \<noteq> MethodPost"
    and "Method r' \<noteq> MethodGet"
  shows "(\<forall>b. handleCreatePayment (r\<lparr>Body := b\<rparr>) (newResponseWriter, lg) =
              (Error newResponseWriter ''Invalid method'' StatusMethodNotAllowed, lg))
       \<and> handleCreatePayment r (newResponseWriter, lg) =
           (Error newResponseWriter ''Invalid method'' StatusMethodNotAllowed, lg)
       \<and> handleGetPayment r' (newResponseWriter, lg) =
           (Error newResponseWriter ''Invalid method'' StatusMethodNotAllowed, lg)
       \<and> Code (Error newResponseWriter ''Invalid method'' StatusMethodNotAllowed) = Some 405
       \<and> Written (Error newResponseWriter ''Invalid method'' StatusMethodNotAllowed) =
           [Text ''Invalid method'']"
  using assms
  by (simp add: create_not_post handleGetPayment_def Error_new StatusMethodNotAllowed_def)

theorem wrong_method_405_witness:
  "handleCreatePayment
      \<lparr>Method = ''PUT'',
       Body = Document (JObject [(''amount'', JNumber 100.5), (''currency'', JString ''RUB'')])\<rparr>
      (newResponseWriter, []) =
     (Error newResponseWriter ''Invalid method'' StatusMethodNotAllowed, [])
   \<and> handleCreatePayment \<lparr>Method = ''PUT'', Body = Malformed (SyntaxError ''EOF'')\<rparr>
      (newResponseWriter, []) =
     (Error newResponseWriter ''Invalid method'' StatusMethodNotAllowed, [])
   \<and> handleGetPayment \<lparr>Method = ''POST'', Body = Malformed (SyntaxError ''EOF'')\<rparr>
      (newResponseWriter, []) =
     (Error newResponseWriter ''Invalid method'' StatusMethodNotAllowed, [])
   \<and> Code (Error newResponseWriter ''Invalid method'' StatusMethodNotAllowed) = Some 405
   \<and> Written (Error newResponseWriter ''Invalid method'' StatusMethodNotAllowed) =
       [Text ''Invalid method'']"
proof -
  let ?r = "\<lparr>Method = ''PUT'',
       Body = Document (JObject [(''amount'', JNumber 100.5), (''currency'', JString ''RUB'')])\<rparr>"
  let ?r' = "\<lparr>Method = ''POST'', Body = Malformed (SyntaxError ''EOF'')\<rparr>"
  have a: "Method ?r \<noteq> MethodPost" by (simp add: MethodPost_def)
  have b: "Method ?r' \<noteq> MethodGet" by (simp add: MethodGet_def)
  note t = wrong_method_405 [OF a b, of "[]"]
  from t have "handleCreatePayment (?r\<lparr>Body := Malformed (SyntaxError ''EOF'')\<rparr>) (newResponseWriter, []) =
              (Error newResponseWriter ''Invalid method'' StatusMethodNotAllowed, [])"
    by blast
  with t show ?thesis by simp
qed

text \<open>
  C6. For every GET request the status handler answers 200 with the content type
  application/json and the encoding of the same Payment: id \<open>pay_12345\<close>, amount
  1000.50, currency \<open>RUB\<close>, status \<open>succeeded\<close>, no \<open>description\<close> member. The log is
  left as it was, and the request body plays no part.
\<close>

theorem get_fixed_payment:
  assumes "Method r = MethodGet"
  shows "case handleGetPayment r (newResponseWriter, lg) of (w, lg') \<Rightarrow>
           Code w = Some 200
         \<and> Header w ''Content-Type'' = Some ''application/json''
         \<and> Written w = [Json (JObject [(''id'', JString ''pay_12345''), (''amount'', JNumber 1000.50),
                                       (''currency'', JString ''RUB''), (''status'', JString ''succeeded'')])]
         \<and> lg' = lg"
  using assms
  by (simp add: handleGetPayment_def Encode_new StatusOK_def Marshal_def Let_def)

theorem get_fixed_payment_witness:
  "case handleGetPayment \<lparr>Method = ''GET'', Body = Malformed (SyntaxError ''EOF'')\<rparr>
          (newResponseWriter, []) of (w, lg') \<Rightarrow>
           Code w = Some 200
         \<and> Header w ''Content-Type'' = Some ''application/json''
         \<and> Written w = [Json (JObject [(''id'', JString ''pay_12345''), (''amount'', JNumber 1000.50),
                                       (''currency'', JString ''RUB''), (''status'', JString ''succeeded'')])]
         \<and> lg' = []"
  using get_fixed_payment [of "\<lparr>Method = ''GET'', Body = Malformed (SyntaxError ''EOF'')\<rparr>" "[]"]
  by (simp add: MethodGet_def)

subsection \<open>The lenient decoder\<close>

text \<open>
  C10. An object decodes without error when every key that names a field carries a
  value that fits it: keys that name no field are skipped, fields that no key names
  keep their zero values. So a POST body without an amount key, such as the empty
  object or an object of unknown keys only, is not answered with \<open>Invalid JSON\<close> but
  with the status 400 and the message \<open>Amount must be positive\<close>.
\<close>

theorem decoder_lenient:
  assumes "Method r = MethodPost"
    and "Body r = Document (JObject kvs)"
    and "\<forall>(k, v) \<in> set kvs. \<forall>f. lookup_field k = Some f \<longrightarrow> fits f v"
  shows "snd (Decode (Body r) zero_Payment) = None
       \<and> (\<forall>f. f \<notin> named kvs \<longrightarrow>
            field_value f (fst (Decode (Body r) zero_Payment)) = field_value f zero_Payment)
       \<and> (F_Amount \<notin> named kvs \<longrightarrow>
            handleCreatePayment r (newResponseWriter, lg) =
              (Error newResponseWriter ''Amount must be positive'' StatusBadRequest, lg)
          \<and> Code (Error newResponseWriter ''Amount must be positive'' StatusBadRequest) = Some 400
          \<and> Written (Error newResponseWriter ''Amount must be positive'' StatusBadRequest) =
              [Text ''Amount must be positive''])"
proof -
  obtain p e where d: "Decode (Body r) zero_Payment = (p, e)"
    by (cases "Decode (Body r) zero_Payment")
  with assms(2) have o: "object kvs (zero_Payment, None) = (p, e)" by simp
  from object_no_error [OF assms(3), of zero_Payment None] o have e: "e = None" by simp
  have frame: "field_value f p = field_value f zero_Payment" if "f \<notin> named kvs" for f
    using object_frame [OF that, of zero_Payment None] o by simp
  have "handleCreatePayment r (newResponseWriter, lg) =
          (Error newResponseWriter ''Amount must be positive'' StatusBadRequest, lg)"
    if "F_Amount \<notin> named kvs"
  proof -
    from frame [OF that] have "Amount p \<le> 0" by (simp add: zero_Payment_def)
    with assms(1) d e show ?thesis by (simp add: create_bad_amount)
  qed
  with d e frame show ?thesis by (simp add: Error_new StatusBadRequest_def)
qed

theorem decoder_lenient_witness:
  "handleCreatePayment \<lparr>Method = ''POST'', Body = Document (JObject [])\<rparr> (newResponseWriter, []) =
     (Error newResponseWriter ''Amount must be positive'' StatusBadRequest, [])
   \<and> handleCreatePayment
       \<lparr>Method = ''POST'',
        Body = Document (JObject [(''note'', JBool True), (''total'', JNumber 5)])\<rparr>
       (newResponseWriter, []) =
     (Error newResponseWriter ''Amount must be positive'' StatusBadRequest, [])
   \<and> Decode (Document (JObject [(''note'', JBool True), (''currency'', JString ''RUB'')])) zero_Payment =
       (\<lparr>ID = [], Amount = 0, Currency = ''RUB'', Status = [], Description = []\<rparr>, None)"
proof -
  let ?r0 = "\<lparr>Method = ''POST'', Body = Document (JObject [])\<rparr>"
  let ?kvs = "[(''note'', JBool True), (''total'', JNumber 5)]"
  let ?r1 = "\<lparr>Method = ''POST'', Body = Document (JObject ?kvs)\<rparr>"
  have m0: "Method ?r0 = MethodPost" and m1: "Method ?r1 = MethodPost"
    by (simp_all add: MethodPost_def)
  have t0: "\<forall>(k, v) \<in> set []. \<forall>f. lookup_field k = Some f \<longrightarrow> fits f v" by simp
  have t1: "\<forall>(k, v) \<in> set ?kvs. \<forall>f. lookup_field k = Some f \<longrightarrow> fits f v"
    by (simp add: eval_defs)
  have n0: "F_Amount \<notin> named []" by (simp add: named_Nil)
  have n1: "F_Amount \<notin> named ?kvs" by (simp add: named_Cons named_Nil eval_defs)
  have a: "handleCreatePayment ?r0 (newResponseWriter, []) =
     (Error newResponseWriter ''Amount must be positive'' StatusBadRequest, [])"
    using decoder_lenient [OF m0 _ t0, of "[]"] n0 by simp
  have b: "handleCreatePayment ?r1 (newResponseWriter, []) =
     (Error newResponseWriter ''Amount must be positive'' StatusBadRequest, [])"
    using decoder_lenient [OF m1 _ t1, of "[]"] n1 by simp
  have c: "Decode (Document (JObject [(''note'', JBool True), (''currency'', JString ''RUB'')])) zero_Payment =
       (\<lparr>ID = [], Amount = 0, Currency = ''RUB'', Status = [], Description = []\<rparr>, None)"
    by (simp add: eval_defs)
  from a b c show ?thesis by simp
qed

end
